theory Spec2Isabelle
  imports Main "HOL-Library.Word"
begin

section \<open>The dashboard view of \<^verbatim>\<open>dashboard/views.py\<close>\<close>

text \<open>
  The repository is one Django view:
  \<^verbatim>\<open>
  def index(request):
      response = requests.get(settings.API_URL)
      posts = response.json()
      total_responses = len(posts)
      data = { 'title': "Landing Page' Dashboard", 'total_responses': total_responses, }
      return render(request, "dashboard/index.html", data)
  \<close>
  The view calls three libraries (\<^verbatim>\<open>requests\<close>, the JSON decoder behind
  \<^verbatim>\<open>response.json()\<close> and Django's template engine) and one builtin
  (\<^verbatim>\<open>len\<close>). The libraries are not code of the repository: what the network
  answers, what a body decodes to and what a template renders to are parameters of the
  model. The builtin, the control flow of the view and every exception path are modelled
  as written.
\<close>

subsection \<open>Python values\<close>

text \<open>
  A Python \<^verbatim>\<open>str\<close> is a sequence of code points, and \<^verbatim>\<open>len\<close> counts code
  points; a \<^verbatim>\<open>str\<close> is therefore a list with one number per code point. Literals of
  the source are ASCII and are written through \<open>str_lit\<close>.
\<close>

type_synonym pystr = "nat list"

definition str_lit :: "string \<Rightarrow> pystr" where
  "str_lit s = map of_char s"

text \<open>
  What \<^verbatim>\<open>response.json()\<close> can return: \<^verbatim>\<open>None\<close>, a \<^verbatim>\<open>bool\<close>, an
  \<^verbatim>\<open>int\<close>, a \<^verbatim>\<open>float\<close> (its 64 bits), a \<^verbatim>\<open>str\<close>, a \<^verbatim>\<open>list\<close> or a
  \<^verbatim>\<open>dict\<close> with \<^verbatim>\<open>str\<close> keys. A dict is the list of its items in insertion order.
\<close>

datatype pyval =
    PyNone
  | PyBool bool
  | PyInt int
  | PyFloat "64 word"
  | PyStr pystr
  | PyList "pyval list"
  | PyDict "(pystr \<times> pyval) list"

type_synonym pydict = "(pystr \<times> pyval) list"

text \<open>The exceptions that can leave the view.\<close>

datatype exn =
    ConnectionError
  | Timeout
  | JSONDecodeError
  | TypeError
  | TemplateDoesNotExist
  | TemplateSyntaxError

text \<open>
  The builtin \<^verbatim>\<open>len\<close>: the number of code points of a \<^verbatim>\<open>str\<close>, of elements of a
  \<^verbatim>\<open>list\<close>, of keys of a \<^verbatim>\<open>dict\<close>; \<^verbatim>\<open>TypeError\<close> for every other value
  (\<^verbatim>\<open>object of type 'int' has no len()\<close>).
\<close>

fun len :: "pyval \<Rightarrow> exn + nat" where
  "len (PyStr s) = Inr (length s)"
| "len (PyList xs) = Inr (length xs)"
| "len (PyDict kvs) = Inr (length (remdups (map fst kvs)))"
| "len PyNone = Inl TypeError"
| "len (PyBool b) = Inl TypeError"
| "len (PyInt i) = Inl TypeError"
| "len (PyFloat f) = Inl TypeError"

subsection \<open>HTTP messages\<close>

datatype http_method = GET | HEAD | POST | PUT | PATCH | DELETE

text \<open>An outbound request as \<^verbatim>\<open>requests\<close> is asked to send it.\<close>

record Request =
  req_method :: http_method
  url :: pystr
  params :: "(pystr \<times> pystr) list"
  headers :: "(pystr \<times> pystr) list"
  payload :: "pystr option"

text \<open>The upstream's answer: \<^verbatim>\<open>requests.Response\<close>.\<close>

record Response =
  status_code :: nat
  body_text :: pystr

text \<open>The inbound request Django hands to the view: \<^verbatim>\<open>django.http.HttpRequest\<close>.\<close>

record HttpRequest =
  http_method :: http_method
  path :: pystr
  query :: "(pystr \<times> pystr) list"
  http_headers :: "(pystr \<times> pystr) list"
  body :: pystr

text \<open>What the view returns: \<^verbatim>\<open>django.http.HttpResponse\<close>.\<close>

record HttpResponse =
  status :: nat
  content :: pystr

subsection \<open>The world around the view\<close>

text \<open>
  The calls the view makes to the outside are recorded in a trace, in order: the outbound
  requests handed to \<^verbatim>\<open>requests\<close>, and the calls of \<^verbatim>\<open>render\<close> with the
  request, the template name and the context.
\<close>

datatype event =
    Fetched Request
  | Rendered HttpRequest pystr pydict

text \<open>
  The state the view runs in: the setting \<^verbatim>\<open>settings.API_URL\<close>, what the network
  answers to an outbound request at this moment (a response, or the exception
  \<^verbatim>\<open>requests\<close> raises), and the trace. The record is extensible: every other part of
  the process (stores, caches, other settings) is its \<open>more\<close> field.
\<close>

record world =
  API_URL :: pystr
  network :: "Request \<Rightarrow> exn + Response"
  trace :: "event list"

text \<open>
  The libraries: \<open>json_loads\<close> is the JSON decoder (no value for a body that is not
  JSON), \<open>render_to_string\<close> is Django's template loader and engine.
\<close>

record lib =
  json_loads :: "pystr \<Rightarrow> pyval option"
  render_to_string :: "pystr \<Rightarrow> pydict \<Rightarrow> HttpRequest \<Rightarrow> exn + pystr"

definition emit :: "event \<Rightarrow> 'a world_scheme \<Rightarrow> 'a world_scheme" where
  "emit ev w = w\<lparr>trace := trace w @ [ev]\<rparr>"

text \<open>
  \<^verbatim>\<open>requests.get(url)\<close> is \<^verbatim>\<open>request("get", url, params=None)\<close>: a GET of the URL
  with no parameters, no headers of the caller's and no body.
\<close>

definition get_request :: "pystr \<Rightarrow> Request" where
  "get_request u = \<lparr>req_method = GET, url = u, params = [], headers = [], payload = None\<rparr>"

definition requests_get :: "pystr \<Rightarrow> 'a world_scheme \<Rightarrow> (exn + Response) \<times> 'a world_scheme" where
  "requests_get u w = (network w (get_request u), emit (Fetched (get_request u)) w)"

text \<open>\<^verbatim>\<open>response.json()\<close> decodes the body and raises when it is not JSON.\<close>

definition json :: "lib \<Rightarrow> Response \<Rightarrow> exn + pyval" where
  "json L response =
     (case json_loads L (body_text response) of
        None \<Rightarrow> Inl JSONDecodeError
      | Some v \<Rightarrow> Inr v)"

text \<open>
  \<^verbatim>\<open>django.shortcuts.render\<close>: render the template to a string and wrap it in an
  \<^verbatim>\<open>HttpResponse\<close>, whose status defaults to 200.
\<close>

definition render ::
  "lib \<Rightarrow> HttpRequest \<Rightarrow> pystr \<Rightarrow> pydict \<Rightarrow> 'a world_scheme \<Rightarrow> (exn + HttpResponse) \<times> 'a world_scheme"
where
  "render L request template_name context w =
     (let w' = emit (Rendered request template_name context) w
      in case render_to_string L template_name context request of
           Inl e \<Rightarrow> (Inl e, w')
         | Inr html \<Rightarrow> (Inr \<lparr>status = 200, content = html\<rparr>, w'))"

subsection \<open>The view\<close>

text \<open>
  The dict literal of the view, as a function of the one variable it reads:
  \<^verbatim>\<open>{ 'title': "Landing Page' Dashboard", 'total_responses': total_responses, }\<close>.
\<close>

definition data :: "nat \<Rightarrow> pydict" where
  "data total_responses =
     [(str_lit ''title'', PyStr (str_lit ''Landing Page' Dashboard'')),
      (str_lit ''total_responses'', PyInt (int total_responses))]"

text \<open>
  The view, statement by statement. An exception of any call leaves the view at once:
  the source has no \<^verbatim>\<open>try\<close>.
\<close>

definition index ::
  "lib \<Rightarrow> HttpRequest \<Rightarrow> 'a world_scheme \<Rightarrow> (exn + HttpResponse) \<times> 'a world_scheme"
where
  "index L request w =
     (case requests_get (API_URL w) w of
        (Inl e, w1) \<Rightarrow> (Inl e, w1)
      | (Inr response, w1) \<Rightarrow>
          (case json L response of
             Inl e \<Rightarrow> (Inl e, w1)
           | Inr posts \<Rightarrow>
               (case len posts of
                  Inl e \<Rightarrow> (Inl e, w1)
                | Inr total_responses \<Rightarrow>
                    render L request (str_lit ''dashboard/index.html'')
                      (data total_responses) w1)))"

subsection \<open>Observing a run\<close>

text \<open>
  The events a run from \<open>w\<close> to \<open>w'\<close> added to the trace, the outbound requests among
  events, and the render calls among events.
\<close>

definition events_of :: "'a world_scheme \<Rightarrow> 'a world_scheme \<Rightarrow> event list" where
  "events_of w w' = drop (length (trace w)) (trace w')"

fun fetched :: "event list \<Rightarrow> Request list" where
  "fetched [] = []"
| "fetched (Fetched r # evs) = r # fetched evs"
| "fetched (Rendered rq t c # evs) = fetched evs"

fun rendered :: "event list \<Rightarrow> (HttpRequest \<times> pystr \<times> pydict) list" where
  "rendered [] = []"
| "rendered (Fetched r # evs) = rendered evs"
| "rendered (Rendered rq t c # evs) = (rq, t, c) # rendered evs"

subsection \<open>Concrete surroundings\<close>

text \<open>
  A decoder that knows a few bodies, a template engine that knows the dashboard's
  template, an upstream that serves a given body, an upstream that refuses the connection,
  and two inbound requests that differ in method, query, headers and body.
\<close>

definition example_loads :: "pystr \<Rightarrow> pyval option" where
  \<open>example_loads b =
     (if b = str_lit ''[]'' then Some (PyList [])
      else if b = str_lit ''[{}]'' then Some (PyList [PyDict []])
      else if b = str_lit ''[1, 2, 3, 4, 5]'' then
        Some (PyList [PyInt 1, PyInt 2, PyInt 3, PyInt 4, PyInt 5])
      else if b = str_lit ''{"a": 1, "b": [2, 3]}'' then
        Some (PyDict [(str_lit ''a'', PyInt 1), (str_lit ''b'', PyList [PyInt 2, PyInt 3])])
      else if b = str_lit ''"abc"'' then Some (PyStr (str_lit ''abc''))
      else if b = str_lit ''7'' then Some (PyInt 7)
      else if b = str_lit ''true'' then Some (PyBool True)
      else if b = str_lit ''null'' then Some PyNone
      else None)\<close>

definition example_render :: "pystr \<Rightarrow> pydict \<Rightarrow> HttpRequest \<Rightarrow> exn + pystr" where
  "example_render template_name context request =
     (if template_name = str_lit ''dashboard/index.html''
      then Inr (str_lit ''<h1>Dashboard</h1>'')
      else Inl TemplateDoesNotExist)"

definition example_lib :: lib where
  "example_lib = \<lparr>json_loads = example_loads, render_to_string = example_render\<rparr>"

definition serving :: "pystr \<Rightarrow> Request \<Rightarrow> exn + Response" where
  "serving b r = Inr \<lparr>status_code = 200, body_text = b\<rparr>"

definition refusing :: "Request \<Rightarrow> exn + Response" where
  "refusing r = Inl ConnectionError"

definition example_world :: "(Request \<Rightarrow> exn + Response) \<Rightarrow> world" where
  "example_world net =
     \<lparr>API_URL = str_lit ''http://localhost:8000/api/'', network = net, trace = []\<rparr>"

definition example_request :: HttpRequest where
  "example_request =
     \<lparr>http_method = GET, path = str_lit ''/'', query = [], http_headers = [], body = []\<rparr>"

definition other_request :: HttpRequest where
  "other_request =
     \<lparr>http_method = POST, path = str_lit ''/'',
      query = [(str_lit ''page'', str_lit ''2'')],
      http_headers = [(str_lit ''Cookie'', str_lit ''sid=1'')],
      body = str_lit ''x=1''\<rparr>"

section \<open>Properties of the view\<close>

subsection \<open>What a run adds to the world\<close>

lemma index_events:
  "events_of w (snd (index L request w)) =
     Fetched (get_request (API_URL w)) #
       (case network w (get_request (API_URL w)) of
          Inl e \<Rightarrow> []
        | Inr response \<Rightarrow>
            (case json_loads L (body_text response) of
               None \<Rightarrow> []
             | Some posts \<Rightarrow>
                 (case len posts of
                    Inl e \<Rightarrow> []
                  | Inr n \<Rightarrow> [Rendered request (str_lit ''dashboard/index.html'') (data n)])))"
  by (simp add: index_def requests_get_def json_def render_def emit_def events_of_def Let_def
      split: sum.splits option.splits)

lemma index_frame:
  "snd (index L request w) = w\<lparr>trace := trace w @ events_of w (snd (index L request w))\<rparr>"
  by (simp add: index_def requests_get_def json_def render_def emit_def events_of_def Let_def
      split: sum.splits option.splits)

lemma index_ignores_trace:
  "fst (index L request (w\<lparr>trace := t\<rparr>)) = fst (index L request w)"
  by (simp add: index_def requests_get_def json_def render_def emit_def Let_def
      split: sum.splits option.splits)

lemma index_result:
  "fst (index L request w) =
     (case network w (get_request (API_URL w)) of
        Inl e \<Rightarrow> Inl e
      | Inr response \<Rightarrow>
          (case json_loads L (body_text response) of
             None \<Rightarrow> Inl JSONDecodeError
           | Some posts \<Rightarrow>
               (case len posts of
                  Inl e \<Rightarrow> Inl e
                | Inr n \<Rightarrow>
                    (case render_to_string L (str_lit ''dashboard/index.html'') (data n) request of
                       Inl e \<Rightarrow> Inl e
                     | Inr html \<Rightarrow> Inr \<lparr>status = 200, content = html\<rparr>))))"
  by (simp add: index_def requests_get_def json_def render_def emit_def Let_def
      split: sum.splits option.splits)

lemma keys_differ: "str_lit ''title'' \<noteq> str_lit ''total_responses''"
  by (simp add: str_lit_def)

subsection \<open>Faults of the upstream call and of the decoder\<close>

text \<open>
  Claim C4. When the outbound GET to \<^verbatim>\<open>API_URL\<close> raises a transport error, the view
  returns no response: the same exception leaves the view, \<^verbatim>\<open>render\<close> is not called,
  and the GET was issued once (no retry, no fallback).
\<close>

theorem transport_error_propagates:
  assumes "network w (get_request (API_URL w)) = Inl e"
  shows "fst (index L request w) = Inl e
       \<and> rendered (events_of w (snd (index L request w))) = []
       \<and> fetched (events_of w (snd (index L request w))) = [get_request (API_URL w)]"
  using assms by (simp add: index_result index_events)

theorem transport_error_propagates_witness:
  "network (example_world refusing) (get_request (API_URL (example_world refusing)))
     = Inl ConnectionError
   \<and> fst (index example_lib example_request (example_world refusing)) = Inl ConnectionError
   \<and> rendered (events_of (example_world refusing)
        (snd (index example_lib example_request (example_world refusing)))) = []
   \<and> fetched (events_of (example_world refusing)
        (snd (index example_lib example_request (example_world refusing))))
       = [get_request (str_lit ''http://localhost:8000/api/'')]"
proof -
  have h: "network (example_world refusing) (get_request (API_URL (example_world refusing)))
             = Inl ConnectionError"
    by (simp add: example_world_def refusing_def)
  show ?thesis
    using h transport_error_propagates [OF h, of example_lib example_request]
    by (simp add: example_world_def)
qed

text \<open>
  Claim C5. When the body of the upstream's response is not JSON, the decoding raises,
  the exception leaves the view, and \<^verbatim>\<open>render\<close> is not called.
\<close>

theorem malformed_body_propagates:
  assumes "network w (get_request (API_URL w)) = Inr response"
    and "json_loads L (body_text response) = None"
  shows "fst (index L request w) = Inl JSONDecodeError
       \<and> rendered (events_of w (snd (index L request w))) = []"
  using assms by (simp add: index_result index_events)

theorem malformed_body_propagates_witness:
  "network (example_world (serving (str_lit ''not json'')))
       (get_request (API_URL (example_world (serving (str_lit ''not json'')))))
     = Inr \<lparr>status_code = 200, body_text = str_lit ''not json''\<rparr>
   \<and> json_loads example_lib (body_text \<lparr>status_code = 200, body_text = str_lit ''not json''\<rparr>)
       = None
   \<and> fst (index example_lib example_request (example_world (serving (str_lit ''not json''))))
       = Inl JSONDecodeError
   \<and> rendered (events_of (example_world (serving (str_lit ''not json'')))
        (snd (index example_lib example_request
               (example_world (serving (str_lit ''not json'')))))) = []"
proof -
  let ?w = "example_world (serving (str_lit ''not json''))"
  let ?r = "\<lparr>status_code = 200, body_text = str_lit ''not json''\<rparr>"
  have h1: "network ?w (get_request (API_URL ?w)) = Inr ?r"
    by (simp add: example_world_def serving_def)
  have h2: "json_loads example_lib (body_text ?r) = None"
    by (simp add: example_lib_def example_loads_def str_lit_def)
  show ?thesis
    using h1 h2 malformed_body_propagates [OF h1 h2, of example_request]
    by simp
qed

subsection \<open>The context handed to the renderer\<close>

text \<open>
  Claim C1. When the body of the upstream's response decodes to a JSON array of length N
  (N = 0, N = 1 or more), the view calls \<^verbatim>\<open>render\<close> once, and the context of that call
  binds \<^verbatim>\<open>total_responses\<close> to the integer N, which is not negative.
\<close>

theorem total_responses_counts_array:
  assumes "network w (get_request (API_URL w)) = Inr response"
    and "json_loads L (body_text response) = Some (PyList xs)"
  shows "\<exists>ctx. rendered (events_of w (snd (index L request w)))
                 = [(request, str_lit ''dashboard/index.html'', ctx)]
             \<and> map_of ctx (str_lit ''total_responses'') = Some (PyInt (int (length xs)))
             \<and> 0 \<le> int (length xs)"
proof -
  have "rendered (events_of w (snd (index L request w)))
          = [(request, str_lit ''dashboard/index.html'', data (length xs))]"
    using assms by (simp add: index_events)
  moreover have "map_of (data (length xs)) (str_lit ''total_responses'')
                   = Some (PyInt (int (length xs)))"
    using keys_differ by (simp add: data_def)
  ultimately show ?thesis by simp
qed

theorem total_responses_counts_array_witness:
  "(network (example_world (serving (str_lit ''[]'')))
        (get_request (API_URL (example_world (serving (str_lit ''[]'')))))
      = Inr \<lparr>status_code = 200, body_text = str_lit ''[]''\<rparr>
    \<and> json_loads example_lib (body_text \<lparr>status_code = 200, body_text = str_lit ''[]''\<rparr>)
      = Some (PyList [])
    \<and> (\<exists>ctx. rendered (events_of (example_world (serving (str_lit ''[]'')))
                 (snd (index example_lib example_request (example_world (serving (str_lit ''[]''))))))
               = [(example_request, str_lit ''dashboard/index.html'', ctx)]
           \<and> map_of ctx (str_lit ''total_responses'') = Some (PyInt 0)))
   \<and> (network (example_world (serving (str_lit ''[1, 2, 3, 4, 5]'')))
        (get_request (API_URL (example_world (serving (str_lit ''[1, 2, 3, 4, 5]'')))))
      = Inr \<lparr>status_code = 200, body_text = str_lit ''[1, 2, 3, 4, 5]''\<rparr>
    \<and> json_loads example_lib
        (body_text \<lparr>status_code = 200, body_text = str_lit ''[1, 2, 3, 4, 5]''\<rparr>)
      = Some (PyList [PyInt 1, PyInt 2, PyInt 3, PyInt 4, PyInt 5])
    \<and> (\<exists>ctx. rendered (events_of (example_world (serving (str_lit ''[1, 2, 3, 4, 5]'')))
                 (snd (index example_lib example_request
                        (example_world (serving (str_lit ''[1, 2, 3, 4, 5]''))))))
               = [(example_request, str_lit ''dashboard/index.html'', ctx)]
           \<and> map_of ctx (str_lit ''total_responses'') = Some (PyInt 5)))"
proof -
  let ?w0 = "example_world (serving (str_lit ''[]''))"
  let ?r0 = "\<lparr>status_code = 200, body_text = str_lit ''[]''\<rparr>"
  let ?w5 = "example_world (serving (str_lit ''[1, 2, 3, 4, 5]''))"
  let ?r5 = "\<lparr>status_code = 200, body_text = str_lit ''[1, 2, 3, 4, 5]''\<rparr>"
  have n0: "network ?w0 (get_request (API_URL ?w0)) = Inr ?r0"
    by (simp add: example_world_def serving_def)
  have j0: "json_loads example_lib (body_text ?r0) = Some (PyList [])"
    by (simp add: example_lib_def example_loads_def)
  have n5: "network ?w5 (get_request (API_URL ?w5)) = Inr ?r5"
    by (simp add: example_world_def serving_def)
  have j5: "json_loads example_lib (body_text ?r5)
              = Some (PyList [PyInt 1, PyInt 2, PyInt 3, PyInt 4, PyInt 5])"
    by (simp add: example_lib_def example_loads_def str_lit_def)
  show ?thesis
    using n0 j0 n5 j5
      total_responses_counts_array [OF n0 j0, of example_request]
      total_responses_counts_array [OF n5 j5, of example_request]
    by simp
qed

text \<open>
  Claim C2. Whatever the inbound request, the setting, the network and the libraries are,
  every call of \<^verbatim>\<open>render\<close> the view makes binds \<^verbatim>\<open>title\<close> to the literal
  \<^verbatim>\<open>Landing Page' Dashboard\<close>, apostrophe included.
\<close>

theorem title_is_the_literal:
  "\<forall>(rq, template_name, ctx) \<in> set (rendered (events_of w (snd (index L request w)))).
     map_of ctx (str_lit ''title'') = Some (PyStr (str_lit ''Landing Page' Dashboard''))"
  by (simp add: index_events data_def split: sum.splits option.splits)

theorem title_is_the_literal_witness:
  "rendered (events_of (example_world (serving (str_lit ''[1, 2, 3, 4, 5]'')))
      (snd (index example_lib other_request (example_world (serving (str_lit ''[1, 2, 3, 4, 5]''))))))
     = [(other_request, str_lit ''dashboard/index.html'', data 5)]
   \<and> map_of (data 5) (str_lit ''title'') = Some (PyStr (str_lit ''Landing Page' Dashboard''))
   \<and> length (str_lit ''Landing Page' Dashboard'') = 23
   \<and> str_lit ''Landing Page' Dashboard'' ! 12 = 39"
proof -
  let ?w = "example_world (serving (str_lit ''[1, 2, 3, 4, 5]''))"
  have r: "rendered (events_of ?w (snd (index example_lib other_request ?w)))
             = [(other_request, str_lit ''dashboard/index.html'', data 5)]"
    by (simp add: index_events example_world_def serving_def example_lib_def
        example_loads_def str_lit_def data_def)
  have "map_of (data 5) (str_lit ''title'') = Some (PyStr (str_lit ''Landing Page' Dashboard''))"
    using title_is_the_literal [of ?w example_lib other_request] unfolding r by simp
  with r show ?thesis by (simp add: str_lit_def)
qed

text \<open>
  Claim C3. Whenever the view returns a response, it has called \<^verbatim>\<open>render\<close> once, with
  the template \<^verbatim>\<open>dashboard/index.html\<close> and a context of two entries: \<^verbatim>\<open>title\<close>, a
  string, and \<^verbatim>\<open>total_responses\<close>, the integer that \<^verbatim>\<open>len\<close> gave for the decoded
  value. The context has no other key, and none of its values is a list or a dict: the
  decoded value is counted, not passed on.
\<close>

theorem renders_template_with_two_keys:
  assumes "fst (index L request w) = Inr page"
  shows "\<exists>response posts n ctx.
           network w (get_request (API_URL w)) = Inr response
         \<and> json_loads L (body_text response) = Some posts
         \<and> len posts = Inr n
         \<and> rendered (events_of w (snd (index L request w)))
             = [(request, str_lit ''dashboard/index.html'', ctx)]
         \<and> ctx = [(str_lit ''title'', PyStr (str_lit ''Landing Page' Dashboard'')),
                   (str_lit ''total_responses'', PyInt (int n))]
         \<and> map fst ctx = [str_lit ''title'', str_lit ''total_responses'']
         \<and> distinct (map fst ctx)
         \<and> (\<forall>xs. PyList xs \<notin> snd ` set ctx)
         \<and> (\<forall>kvs. PyDict kvs \<notin> snd ` set ctx)
         \<and> status page = 200"
proof -
  from assms obtain response where n: "network w (get_request (API_URL w)) = Inr response"
    by (auto simp: index_result split: sum.splits)
  from assms n obtain posts where j: "json_loads L (body_text response) = Some posts"
    by (auto simp: index_result split: option.splits)
  from assms n j obtain k where l: "len posts = Inr k"
    by (auto simp: index_result split: sum.splits)
  from assms n j l have s: "status page = 200"
    by (auto simp: index_result split: sum.splits)
  have r: "rendered (events_of w (snd (index L request w)))
             = [(request, str_lit ''dashboard/index.html'', data k)]"
    using n j l by (simp add: index_events)
  show ?thesis
    using n j l s r keys_differ by (simp add: data_def)
qed

theorem renders_template_with_two_keys_witness:
  "fst (index example_lib example_request (example_world (serving (str_lit ''[1, 2, 3, 4, 5]''))))
     = Inr \<lparr>status = 200, content = str_lit ''<h1>Dashboard</h1>''\<rparr>
   \<and> rendered (events_of (example_world (serving (str_lit ''[1, 2, 3, 4, 5]'')))
        (snd (index example_lib example_request
               (example_world (serving (str_lit ''[1, 2, 3, 4, 5]''))))))
       = [(example_request, str_lit ''dashboard/index.html'',
           [(str_lit ''title'', PyStr (str_lit ''Landing Page' Dashboard'')),
            (str_lit ''total_responses'', PyInt 5)])]"
proof -
  let ?w = "example_world (serving (str_lit ''[1, 2, 3, 4, 5]''))"
  have h: "fst (index example_lib example_request ?w)
             = Inr \<lparr>status = 200, content = str_lit ''<h1>Dashboard</h1>''\<rparr>"
    by (simp add: index_result example_world_def serving_def example_lib_def
        example_loads_def example_render_def str_lit_def)
  from renders_template_with_two_keys [OF h]
  obtain response posts n where
      "network ?w (get_request (API_URL ?w)) = Inr response"
      "json_loads example_lib (body_text response) = Some posts"
      "len posts = Inr n"
      "rendered (events_of ?w (snd (index example_lib example_request ?w)))
         = [(example_request, str_lit ''dashboard/index.html'',
             [(str_lit ''title'', PyStr (str_lit ''Landing Page' Dashboard'')),
              (str_lit ''total_responses'', PyInt (int n))])]"
    by blast
  then show ?thesis
    using h by (auto simp: example_world_def serving_def example_lib_def
        example_loads_def str_lit_def)
qed

subsection \<open>Decoded values and their length\<close>

text \<open>
  Claim C6, as the code has it. When the body decodes to a JSON value that has no length
  in Python (a number, a boolean or \<^verbatim>\<open>null\<close>), \<^verbatim>\<open>len\<close> raises
  \<^verbatim>\<open>TypeError\<close>, the exception leaves the view, \<^verbatim>\<open>render\<close> is not called and no
  response is returned. A JSON object and a JSON string do have a length: see the
  counterexample below and claim C10.
\<close>

theorem value_without_length_propagates:
  assumes "network w (get_request (API_URL w)) = Inr response"
    and "json_loads L (body_text response) = Some posts"
    and "posts = PyNone \<or> (\<exists>b. posts = PyBool b) \<or> (\<exists>i. posts = PyInt i) \<or> (\<exists>f. posts = PyFloat f)"
  shows "len posts = Inl TypeError
       \<and> fst (index L request w) = Inl TypeError
       \<and> rendered (events_of w (snd (index L request w))) = []"
proof -
  from assms(3) have "len posts = Inl TypeError" by auto
  with assms(1,2) show ?thesis by (simp add: index_result index_events)
qed

theorem value_without_length_propagates_witness:
  "network (example_world (serving (str_lit ''7'')))
       (get_request (API_URL (example_world (serving (str_lit ''7'')))))
     = Inr \<lparr>status_code = 200, body_text = str_lit ''7''\<rparr>
   \<and> json_loads example_lib (body_text \<lparr>status_code = 200, body_text = str_lit ''7''\<rparr>)
       = Some (PyInt 7)
   \<and> len (PyInt 7) = Inl TypeError
   \<and> fst (index example_lib example_request (example_world (serving (str_lit ''7''))))
       = Inl TypeError
   \<and> rendered (events_of (example_world (serving (str_lit ''7'')))
        (snd (index example_lib example_request (example_world (serving (str_lit ''7'')))))) = []"
proof -
  let ?w = "example_world (serving (str_lit ''7''))"
  let ?r = "\<lparr>status_code = 200, body_text = str_lit ''7''\<rparr>"
  have h1: "network ?w (get_request (API_URL ?w)) = Inr ?r"
    by (simp add: example_world_def serving_def)
  have h2: "json_loads example_lib (body_text ?r) = Some (PyInt 7)"
    by (simp add: example_lib_def example_loads_def str_lit_def)
  have h3: "PyInt 7 = PyNone \<or> (\<exists>b. PyInt 7 = PyBool b) \<or> (\<exists>i. PyInt 7 = PyInt i)
              \<or> (\<exists>f. PyInt 7 = PyFloat f)"
    by simp
  show ?thesis
    using h1 h2 value_without_length_propagates [OF h1 h2 h3, of example_request]
    by simp
qed

text \<open>
  Claim C6 as the spec words it takes a JSON object and a scalar for values without a
  length. The upstream serves the object \<^verbatim>\<open>{"a": 1, "b": [2, 3]}\<close>, then the string
  \<^verbatim>\<open>"abc"\<close>: \<^verbatim>\<open>len\<close> returns 2 and 3, and the view returns a response of status 200.
\<close>

theorem object_and_string_have_length_counterexample:
  \<open>json_loads example_lib (str_lit ''{"a": 1, "b": [2, 3]}'')
     = Some (PyDict [(str_lit ''a'', PyInt 1), (str_lit ''b'', PyList [PyInt 2, PyInt 3])])
   \<and> len (PyDict [(str_lit ''a'', PyInt 1), (str_lit ''b'', PyList [PyInt 2, PyInt 3])]) = Inr 2
   \<and> index example_lib example_request (example_world (serving (str_lit ''{"a": 1, "b": [2, 3]}'')))
       = (Inr \<lparr>status = 200, content = str_lit ''<h1>Dashboard</h1>''\<rparr>,
          \<lparr>API_URL = str_lit ''http://localhost:8000/api/'',
           network = serving (str_lit ''{"a": 1, "b": [2, 3]}''),
           trace = [Fetched (get_request (str_lit ''http://localhost:8000/api/'')),
                    Rendered example_request (str_lit ''dashboard/index.html'') (data 2)]\<rparr>)
   \<and> json_loads example_lib (str_lit ''"abc"'') = Some (PyStr (str_lit ''abc''))
   \<and> len (PyStr (str_lit ''abc'')) = Inr 3
   \<and> index example_lib example_request (example_world (serving (str_lit ''"abc"'')))
       = (Inr \<lparr>status = 200, content = str_lit ''<h1>Dashboard</h1>''\<rparr>,
          \<lparr>API_URL = str_lit ''http://localhost:8000/api/'',
           network = serving (str_lit ''"abc"''),
           trace = [Fetched (get_request (str_lit ''http://localhost:8000/api/'')),
                    Rendered example_request (str_lit ''dashboard/index.html'') (data 3)]\<rparr>)\<close>
  by (simp add: index_def requests_get_def json_def render_def emit_def Let_def
      example_world_def serving_def example_lib_def example_loads_def example_render_def
      str_lit_def data_def)

text \<open>
  Claim C10. \<^verbatim>\<open>len\<close> is applied to whatever the decoder returns. For a list the view
  renders with the number of elements, for a dict with the number of keys, for a string
  with the number of characters, and the response has status 200 when the template
  renders; for a number, a boolean and \<^verbatim>\<open>None\<close>, and for these only, \<^verbatim>\<open>len\<close>
  raises \<^verbatim>\<open>TypeError\<close> and the view returns no response.
\<close>

theorem len_decides_the_outcome:
  assumes "network w (get_request (API_URL w)) = Inr response"
    and "json_loads L (body_text response) = Some posts"
  shows "(case posts of
            PyList xs \<Rightarrow>
              rendered (events_of w (snd (index L request w)))
                = [(request, str_lit ''dashboard/index.html'', data (length xs))]
              \<and> fst (index L request w)
                = map_sum id (\<lambda>html. \<lparr>status = 200, content = html\<rparr>)
                    (render_to_string L (str_lit ''dashboard/index.html'') (data (length xs)) request)
          | PyDict kvs \<Rightarrow>
              rendered (events_of w (snd (index L request w)))
                = [(request, str_lit ''dashboard/index.html'', data (card (fst ` set kvs)))]
              \<and> fst (index L request w)
                = map_sum id (\<lambda>html. \<lparr>status = 200, content = html\<rparr>)
                    (render_to_string L (str_lit ''dashboard/index.html'')
                       (data (card (fst ` set kvs))) request)
          | PyStr s \<Rightarrow>
              rendered (events_of w (snd (index L request w)))
                = [(request, str_lit ''dashboard/index.html'', data (length s))]
              \<and> fst (index L request w)
                = map_sum id (\<lambda>html. \<lparr>status = 200, content = html\<rparr>)
                    (render_to_string L (str_lit ''dashboard/index.html'') (data (length s)) request)
          | _ \<Rightarrow>
              fst (index L request w) = Inl TypeError
              \<and> rendered (events_of w (snd (index L request w))) = [])
       \<and> ((\<exists>e. len posts = Inl e) \<longleftrightarrow>
            posts = PyNone \<or> (\<exists>b. posts = PyBool b) \<or> (\<exists>i. posts = PyInt i)
              \<or> (\<exists>f. posts = PyFloat f))"
proof -
  have keys: "length (remdups (map fst kvs)) = card (fst ` set kvs)" for kvs :: pydict
    by (simp add: length_remdups_card_conv)
  show ?thesis
    using assms
    by (cases posts)
       (simp_all add: index_result index_events keys split: sum.splits)
qed

theorem len_decides_the_outcome_witness:
  \<open>(network (example_world (serving (str_lit ''{"a": 1, "b": [2, 3]}'')))
        (get_request (API_URL (example_world (serving (str_lit ''{"a": 1, "b": [2, 3]}'')))))
      = Inr \<lparr>status_code = 200, body_text = str_lit ''{"a": 1, "b": [2, 3]}''\<rparr>
    \<and> json_loads example_lib
        (body_text \<lparr>status_code = 200, body_text = str_lit ''{"a": 1, "b": [2, 3]}''\<rparr>)
      = Some (PyDict [(str_lit ''a'', PyInt 1), (str_lit ''b'', PyList [PyInt 2, PyInt 3])])
    \<and> rendered (events_of (example_world (serving (str_lit ''{"a": 1, "b": [2, 3]}'')))
        (snd (index example_lib example_request
               (example_world (serving (str_lit ''{"a": 1, "b": [2, 3]}''))))))
      = [(example_request, str_lit ''dashboard/index.html'', data 2)]
    \<and> fst (index example_lib example_request
             (example_world (serving (str_lit ''{"a": 1, "b": [2, 3]}''))))
      = Inr \<lparr>status = 200, content = str_lit ''<h1>Dashboard</h1>''\<rparr>)
   \<and> (network (example_world (serving (str_lit ''"abc"'')))
        (get_request (API_URL (example_world (serving (str_lit ''"abc"'')))))
      = Inr \<lparr>status_code = 200, body_text = str_lit ''"abc"''\<rparr>
    \<and> json_loads example_lib (body_text \<lparr>status_code = 200, body_text = str_lit ''"abc"''\<rparr>)
      = Some (PyStr (str_lit ''abc''))
    \<and> rendered (events_of (example_world (serving (str_lit ''"abc"'')))
        (snd (index example_lib example_request (example_world (serving (str_lit ''"abc"''))))))
      = [(example_request, str_lit ''dashboard/index.html'', data 3)]
    \<and> fst (index example_lib example_request (example_world (serving (str_lit ''"abc"''))))
      = Inr \<lparr>status = 200, content = str_lit ''<h1>Dashboard</h1>''\<rparr>)
   \<and> (network (example_world (serving (str_lit ''[{}]'')))
        (get_request (API_URL (example_world (serving (str_lit ''[{}]'')))))
      = Inr \<lparr>status_code = 200, body_text = str_lit ''[{}]''\<rparr>
    \<and> json_loads example_lib (body_text \<lparr>status_code = 200, body_text = str_lit ''[{}]''\<rparr>)
      = Some (PyList [PyDict []])
    \<and> rendered (events_of (example_world (serving (str_lit ''[{}]'')))
        (snd (index example_lib example_request (example_world (serving (str_lit ''[{}]''))))))
      = [(example_request, str_lit ''dashboard/index.html'', data 1)]
    \<and> fst (index example_lib example_request (example_world (serving (str_lit ''[{}]''))))
      = Inr \<lparr>status = 200, content = str_lit ''<h1>Dashboard</h1>''\<rparr>)
   \<and> (network (example_world (serving (str_lit ''null'')))
        (get_request (API_URL (example_world (serving (str_lit ''null'')))))
      = Inr \<lparr>status_code = 200, body_text = str_lit ''null''\<rparr>
    \<and> json_loads example_lib (body_text \<lparr>status_code = 200, body_text = str_lit ''null''\<rparr>)
      = Some PyNone
    \<and> rendered (events_of (example_world (serving (str_lit ''null'')))
        (snd (index example_lib example_request (example_world (serving (str_lit ''null''))))))
      = []
    \<and> fst (index example_lib example_request (example_world (serving (str_lit ''null''))))
      = Inl TypeError)\<close>
proof -
  let ?wd = \<open>example_world (serving (str_lit ''{"a": 1, "b": [2, 3]}''))\<close>
  let ?rd = \<open>\<lparr>status_code = 200, body_text = str_lit ''{"a": 1, "b": [2, 3]}''\<rparr>\<close>
  let ?ws = \<open>example_world (serving (str_lit ''"abc"''))\<close>
  let ?rs = \<open>\<lparr>status_code = 200, body_text = str_lit ''"abc"''\<rparr>\<close>
  let ?wl = \<open>example_world (serving (str_lit ''[{}]''))\<close>
  let ?rl = \<open>\<lparr>status_code = 200, body_text = str_lit ''[{}]''\<rparr>\<close>
  let ?wn = \<open>example_world (serving (str_lit ''null''))\<close>
  let ?rn = \<open>\<lparr>status_code = 200, body_text = str_lit ''null''\<rparr>\<close>
  have nd: "network ?wd (get_request (API_URL ?wd)) = Inr ?rd"
    and ns: "network ?ws (get_request (API_URL ?ws)) = Inr ?rs"
    and nl: "network ?wl (get_request (API_URL ?wl)) = Inr ?rl"
    and nn: "network ?wn (get_request (API_URL ?wn)) = Inr ?rn"
    by (simp_all add: example_world_def serving_def)
  have jd: "json_loads example_lib (body_text ?rd)
              = Some (PyDict [(str_lit ''a'', PyInt 1), (str_lit ''b'', PyList [PyInt 2, PyInt 3])])"
    and js: "json_loads example_lib (body_text ?rs) = Some (PyStr (str_lit ''abc''))"
    and jl: "json_loads example_lib (body_text ?rl) = Some (PyList [PyDict []])"
    and jn: "json_loads example_lib (body_text ?rn) = Some PyNone"
    by (simp_all add: example_lib_def example_loads_def str_lit_def)
  have pd: "rendered (events_of ?wd (snd (index example_lib example_request ?wd)))
              = [(example_request, str_lit ''dashboard/index.html'', data 2)]
            \<and> fst (index example_lib example_request ?wd)
              = Inr \<lparr>status = 200, content = str_lit ''<h1>Dashboard</h1>''\<rparr>"
    using len_decides_the_outcome [OF nd jd, of example_request]
    by (simp add: example_lib_def example_render_def str_lit_def data_def)
  have ps: "rendered (events_of ?ws (snd (index example_lib example_request ?ws)))
              = [(example_request, str_lit ''dashboard/index.html'', data 3)]
            \<and> fst (index example_lib example_request ?ws)
              = Inr \<lparr>status = 200, content = str_lit ''<h1>Dashboard</h1>''\<rparr>"
    using len_decides_the_outcome [OF ns js, of example_request]
    by (simp add: example_lib_def example_render_def str_lit_def data_def)
  have pl: "rendered (events_of ?wl (snd (index example_lib example_request ?wl)))
              = [(example_request, str_lit ''dashboard/index.html'', data 1)]
            \<and> fst (index example_lib example_request ?wl)
              = Inr \<lparr>status = 200, content = str_lit ''<h1>Dashboard</h1>''\<rparr>"
    using len_decides_the_outcome [OF nl jl, of example_request]
    by (simp add: example_lib_def example_render_def str_lit_def data_def)
  have pn: "rendered (events_of ?wn (snd (index example_lib example_request ?wn))) = []
            \<and> fst (index example_lib example_request ?wn) = Inl TypeError"
    using len_decides_the_outcome [OF nn jn, of example_request]
    by simp
  from nd jd pd ns js ps nl jl pl nn jn pn show ?thesis
    by blast
qed

subsection \<open>What the view reads and what it leaves behind\<close>

lemma index_trace:
  "trace (snd (index L request w)) = trace w @ events_of w (snd (index L request w))"
  by (subst index_frame) simp

lemma index_API_URL: "API_URL (snd (index L request w)) = API_URL w"
  by (subst index_frame) simp

text \<open>
  Claim C7. The view keeps nothing between runs. The upstream answers an array of length
  N1 to the first run and, after a change of the network, an array of length N2 to the
  second: the contexts of the two render calls bind \<^verbatim>\<open>total_responses\<close> to N1 and to
  N2, in this order, and the second run returns what it would have returned had the first
  run not taken place.
\<close>

theorem sequential_runs_do_not_leak:
  assumes "network w (get_request (API_URL w)) = Inr first_response"
    and "json_loads L (body_text first_response) = Some (PyList first_posts)"
    and "later_network (get_request (API_URL w)) = Inr second_response"
    and "json_loads L (body_text second_response) = Some (PyList second_posts)"
  shows "map (\<lambda>(rq, template_name, ctx). map_of ctx (str_lit ''total_responses''))
           (rendered (events_of w
              (snd (index L second_request
                     ((snd (index L first_request w))\<lparr>network := later_network\<rparr>)))))
          = [Some (PyInt (int (length first_posts))), Some (PyInt (int (length second_posts)))]
       \<and> fst (index L second_request
                ((snd (index L first_request w))\<lparr>network := later_network\<rparr>))
          = fst (index L second_request (w\<lparr>network := later_network\<rparr>))"
proof -
  let ?w1 = "snd (index L first_request w)"
  let ?w1' = "?w1\<lparr>network := later_network\<rparr>"
  let ?w2 = "snd (index L second_request ?w1')"
  have e1: "events_of w ?w1
              = [Fetched (get_request (API_URL w)),
                 Rendered first_request (str_lit ''dashboard/index.html'') (data (length first_posts))]"
    using assms(1,2) by (simp add: index_events)
  have url: "API_URL ?w1' = API_URL w"
    by (simp add: index_API_URL)
  have e2: "events_of ?w1' ?w2
              = [Fetched (get_request (API_URL w)),
                 Rendered second_request (str_lit ''dashboard/index.html'') (data (length second_posts))]"
    using assms(3,4) by (simp add: index_events [of ?w1'] url)
  have t1: "trace ?w1' = trace w @ events_of w ?w1"
    using index_trace [of L first_request w] by simp
  have "trace ?w2 = trace ?w1' @ events_of ?w1' ?w2"
    by (rule index_trace)
  then have "events_of w ?w2 = events_of w ?w1 @ events_of ?w1' ?w2"
    unfolding t1 by (simp add: events_of_def [of w ?w2])
  then have ctxs: "rendered (events_of w ?w2)
              = [(first_request, str_lit ''dashboard/index.html'', data (length first_posts)),
                 (second_request, str_lit ''dashboard/index.html'', data (length second_posts))]"
    by (simp add: e1 e2)
  have "?w1' = (w\<lparr>network := later_network\<rparr>)\<lparr>trace := trace w @ events_of w ?w1\<rparr>"
    by (subst index_frame) simp
  then have "fst (index L second_request ?w1') = fst (index L second_request (w\<lparr>network := later_network\<rparr>))"
    by (simp add: index_ignores_trace)
  with ctxs keys_differ show ?thesis
    by (simp add: data_def)
qed

theorem sequential_runs_do_not_leak_witness:
  "network (example_world (serving (str_lit ''[{}]'')))
       (get_request (API_URL (example_world (serving (str_lit ''[{}]'')))))
     = Inr \<lparr>status_code = 200, body_text = str_lit ''[{}]''\<rparr>
   \<and> json_loads example_lib (body_text \<lparr>status_code = 200, body_text = str_lit ''[{}]''\<rparr>)
       = Some (PyList [PyDict []])
   \<and> serving (str_lit ''[1, 2, 3, 4, 5]'')
         (get_request (API_URL (example_world (serving (str_lit ''[{}]'')))))
       = Inr \<lparr>status_code = 200, body_text = str_lit ''[1, 2, 3, 4, 5]''\<rparr>
   \<and> json_loads example_lib
         (body_text \<lparr>status_code = 200, body_text = str_lit ''[1, 2, 3, 4, 5]''\<rparr>)
       = Some (PyList [PyInt 1, PyInt 2, PyInt 3, PyInt 4, PyInt 5])
   \<and> map (\<lambda>(rq, template_name, ctx). map_of ctx (str_lit ''total_responses''))
        (rendered (events_of (example_world (serving (str_lit ''[{}]'')))
           (snd (index example_lib other_request
                  ((snd (index example_lib example_request
                           (example_world (serving (str_lit ''[{}]'')))))
                     \<lparr>network := serving (str_lit ''[1, 2, 3, 4, 5]'')\<rparr>)))))
       = [Some (PyInt 1), Some (PyInt 5)]"
proof -
  let ?w = "example_world (serving (str_lit ''[{}]''))"
  let ?r1 = "\<lparr>status_code = 200, body_text = str_lit ''[{}]''\<rparr>"
  let ?r2 = "\<lparr>status_code = 200, body_text = str_lit ''[1, 2, 3, 4, 5]''\<rparr>"
  have h1: "network ?w (get_request (API_URL ?w)) = Inr ?r1"
    by (simp add: example_world_def serving_def)
  have h2: "json_loads example_lib (body_text ?r1) = Some (PyList [PyDict []])"
    by (simp add: example_lib_def example_loads_def str_lit_def)
  have h3: "serving (str_lit ''[1, 2, 3, 4, 5]'') (get_request (API_URL ?w)) = Inr ?r2"
    by (simp add: serving_def)
  have h4: "json_loads example_lib (body_text ?r2)
              = Some (PyList [PyInt 1, PyInt 2, PyInt 3, PyInt 4, PyInt 5])"
    by (simp add: example_lib_def example_loads_def str_lit_def)
  show ?thesis
    using h1 h2 h3 h4
      sequential_runs_do_not_leak
        [where later_network = "serving (str_lit ''[1, 2, 3, 4, 5]'')" and first_request = example_request
           and second_request = other_request, OF h1 h2 h3 h4]
    by simp
qed

text \<open>
  Claim C8. The view reads nothing of the inbound request: for two inbound requests and
  the same setting, network and libraries, the outbound requests are the same and the
  contexts handed to \<^verbatim>\<open>render\<close> are the same.
\<close>

theorem inbound_request_is_not_read:
  "fetched (events_of w (snd (index L request1 w)))
     = fetched (events_of w (snd (index L request2 w)))
   \<and> map (\<lambda>(rq, template_name, ctx). ctx) (rendered (events_of w (snd (index L request1 w))))
     = map (\<lambda>(rq, template_name, ctx). ctx) (rendered (events_of w (snd (index L request2 w))))"
  by (simp add: index_events split: sum.splits option.splits)

theorem inbound_request_is_not_read_witness:
  "example_request \<noteq> other_request
   \<and> fetched (events_of (example_world (serving (str_lit ''[1, 2, 3, 4, 5]'')))
        (snd (index example_lib example_request
               (example_world (serving (str_lit ''[1, 2, 3, 4, 5]''))))))
     = fetched (events_of (example_world (serving (str_lit ''[1, 2, 3, 4, 5]'')))
        (snd (index example_lib other_request
               (example_world (serving (str_lit ''[1, 2, 3, 4, 5]''))))))
   \<and> map (\<lambda>(rq, template_name, ctx). ctx)
        (rendered (events_of (example_world (serving (str_lit ''[1, 2, 3, 4, 5]'')))
           (snd (index example_lib other_request
                  (example_world (serving (str_lit ''[1, 2, 3, 4, 5]'')))))))
     = [data 5]"
proof -
  let ?w = "example_world (serving (str_lit ''[1, 2, 3, 4, 5]''))"
  have d: "example_request \<noteq> other_request"
    by (simp add: example_request_def other_request_def)
  have c: "map (\<lambda>(rq, template_name, ctx). ctx)
             (rendered (events_of ?w (snd (index example_lib example_request ?w)))) = [data 5]"
    by (simp add: index_events example_world_def serving_def example_lib_def
        example_loads_def str_lit_def data_def)
  show ?thesis
    using d c inbound_request_is_not_read [of ?w example_lib example_request other_request]
    by simp
qed

text \<open>
  Claim C9. A run of the view issues one outbound request: a GET of the value
  \<^verbatim>\<open>API_URL\<close> has when the run starts, with no parameters, no headers and no body. The
  run changes nothing of the world but the trace, to which it only appends; and a run
  that follows a change of the setting fetches the new URL.
\<close>

theorem one_get_of_the_current_setting:
  "fetched (events_of w (snd (index L request w)))
     = [\<lparr>req_method = GET, url = API_URL w, params = [], headers = [], payload = None\<rparr>]
   \<and> snd (index L request w) = w\<lparr>trace := trace w @ events_of w (snd (index L request w))\<rparr>
   \<and> fetched (events_of ((snd (index L request w))\<lparr>API_URL := u\<rparr>)
        (snd (index L request' ((snd (index L request w))\<lparr>API_URL := u\<rparr>))))
     = [\<lparr>req_method = GET, url = u, params = [], headers = [], payload = None\<rparr>]"
proof -
  have one: "fetched (events_of v (snd (index L rq v))) = [get_request (API_URL v)]"
    for v :: "'a world_scheme" and rq
    by (simp add: index_events split: sum.splits option.splits)
  have "fetched (events_of ((snd (index L request w))\<lparr>API_URL := u\<rparr>)
          (snd (index L request' ((snd (index L request w))\<lparr>API_URL := u\<rparr>))))
          = [get_request u]"
    by (simp add: one)
  with one [of w request] index_frame [of L request w] show ?thesis
    by (simp add: get_request_def)
qed

theorem one_get_of_the_current_setting_witness:
  "fetched (events_of
      \<lparr>API_URL = str_lit ''http://a.example/'', network = refusing, trace = [], \<dots> = [str_lit ''row'']\<rparr>
      (snd (index example_lib example_request
        \<lparr>API_URL = str_lit ''http://a.example/'', network = refusing, trace = [],
         \<dots> = [str_lit ''row'']\<rparr>)))
     = [\<lparr>req_method = GET, url = str_lit ''http://a.example/'', params = [], headers = [],
         payload = None\<rparr>]
   \<and> snd (index example_lib example_request
        \<lparr>API_URL = str_lit ''http://a.example/'', network = refusing, trace = [],
         \<dots> = [str_lit ''row'']\<rparr>)
     = \<lparr>API_URL = str_lit ''http://a.example/'', network = refusing,
        trace = [Fetched (get_request (str_lit ''http://a.example/''))],
        \<dots> = [str_lit ''row'']\<rparr>
   \<and> fetched (events_of
        ((snd (index example_lib example_request
           \<lparr>API_URL = str_lit ''http://a.example/'', network = refusing, trace = [],
            \<dots> = [str_lit ''row'']\<rparr>))\<lparr>API_URL := str_lit ''http://b.example/''\<rparr>)
        (snd (index example_lib other_request
          ((snd (index example_lib example_request
             \<lparr>API_URL = str_lit ''http://a.example/'', network = refusing, trace = [],
              \<dots> = [str_lit ''row'']\<rparr>))\<lparr>API_URL := str_lit ''http://b.example/''\<rparr>))))
     = [\<lparr>req_method = GET, url = str_lit ''http://b.example/'', params = [], headers = [],
         payload = None\<rparr>]"
proof -
  let ?w = "\<lparr>API_URL = str_lit ''http://a.example/'', network = refusing, trace = [],
             \<dots> = [str_lit ''row'']\<rparr>"
  have e: "events_of ?w (snd (index example_lib example_request ?w))
             = [Fetched (get_request (str_lit ''http://a.example/''))]"
    by (simp add: index_events refusing_def)
  note run = one_get_of_the_current_setting
      [of ?w example_lib example_request "str_lit ''http://b.example/''" other_request]
  from run have a: "fetched (events_of ?w (snd (index example_lib example_request ?w)))
      = [\<lparr>req_method = GET, url = str_lit ''http://a.example/'', params = [], headers = [],
          payload = None\<rparr>]"
    by simp
  from run have b: "snd (index example_lib example_request ?w)
      = ?w\<lparr>trace := trace ?w @ events_of ?w (snd (index example_lib example_request ?w))\<rparr>"
    by blast
  have b': "snd (index example_lib example_request ?w)
      = \<lparr>API_URL = str_lit ''http://a.example/'', network = refusing,
         trace = [Fetched (get_request (str_lit ''http://a.example/''))],
         \<dots> = [str_lit ''row'']\<rparr>"
    by (subst b) (simp add: e)
  from run have c: "fetched (events_of
        ((snd (index example_lib example_request ?w))\<lparr>API_URL := str_lit ''http://b.example/''\<rparr>)
        (snd (index example_lib other_request
          ((snd (index example_lib example_request ?w))
             \<lparr>API_URL := str_lit ''http://b.example/''\<rparr>))))
      = [\<lparr>req_method = GET, url = str_lit ''http://b.example/'', params = [], headers = [],
          payload = None\<rparr>]"
    by blast
  from a b' c show ?thesis
    by blast
qed

end
